theory Spec2Isabelle
  imports Complex_Main
begin

section \<open>Python values\<close>

text \<open>
  The handler section arrives as a dictionary produced by a YAML loader, so its keys and
  values are arbitrary Python values. A str is the sequence of its code points, each a
  natural number. A float is represented by its exact value; the only
  thing this module ever does with one is to compare it with an integer literal
  (a nan or an infinity compares unequal to each of them, as every non-integral value
  does). A dictionary is an association list in insertion order.
\<close>

type_synonym pystr = "nat list"

datatype pyval =
    PNone
  | PBool bool
  | PInt int
  | PFloat rat
  | PStr pystr
  | PList "pyval list"
  | PDict "(pyval \<times> pyval) list"

type_synonym pydict = "(pyval \<times> pyval) list"

text \<open>
  The str whose characters are those of a string literal of the source (all of them are
  ASCII), and the value it is.
\<close>

definition ustr :: "string \<Rightarrow> pystr" where
  "ustr s = map of_char s"

abbreviation Str :: "string \<Rightarrow> pyval" where
  "Str s \<equiv> PStr (ustr s)"

text \<open>The literals that occur in the tuples and tables of the class.\<close>

datatype literal = LStr string | LInt int

text \<open>
  \<open>value == literal\<close>. A str equals only a str; an int literal equals an int, a bool
  (\<open>True == 1\<close>) and a float of the same value; everything else is unequal.
\<close>

fun py_eq :: "pyval \<Rightarrow> literal \<Rightarrow> bool" where
  "py_eq (PStr s) (LStr t) = (s = ustr t)"
| "py_eq (PInt i) (LInt n) = (i = n)"
| "py_eq (PBool b) (LInt n) = ((if b then 1 else 0) = n)"
| "py_eq (PFloat r) (LInt n) = (r = of_int n)"
| "py_eq _ _ = False"

text \<open>\<open>value in (l1, l2, ...)\<close>\<close>

definition py_in :: "pyval \<Rightarrow> literal list \<Rightarrow> bool" where
  "py_in val lits = list_ex (py_eq val) lits"

text \<open>\<open>isinstance(val, bool)\<close>, \<open>isinstance(val, str)\<close>, \<open>isinstance(val, dict)\<close>\<close>

fun isinstance_bool :: "pyval \<Rightarrow> bool" where
  "isinstance_bool (PBool _) = True"
| "isinstance_bool _ = False"

fun isinstance_str :: "pyval \<Rightarrow> bool" where
  "isinstance_str (PStr _) = True"
| "isinstance_str _ = False"

fun isinstance_dict :: "pyval \<Rightarrow> bool" where
  "isinstance_dict (PDict _) = True"
| "isinstance_dict _ = False"

text \<open>Truth value of an object, as tested by \<open>if obj:\<close>.\<close>

fun truthy :: "pyval \<Rightarrow> bool" where
  "truthy PNone = False"
| "truthy (PBool b) = b"
| "truthy (PInt i) = (i \<noteq> 0)"
| "truthy (PFloat r) = (r \<noteq> 0)"
| "truthy (PStr s) = (s \<noteq> [])"
| "truthy (PList xs) = (xs \<noteq> [])"
| "truthy (PDict kvs) = (kvs \<noteq> [])"

text \<open>Lists and dictionaries cannot be hashed, so they cannot be looked up in a dict.\<close>

fun hashable :: "pyval \<Rightarrow> bool" where
  "hashable (PList _) = False"
| "hashable (PDict _) = False"
| "hashable _ = True"

datatype config_error =
    MissingUrl pydict
  | UnrecognizedField pyval
  | InvalidValue string pyval
  | ScriptAndStatic
  | NoScriptNoStatic
  | StaticDirAndFiles

text \<open>
  \<open>AppEngineConfigException\<close> carries which message was formatted and from which
  arguments. The other three are the built-in exceptions the module can let escape.
\<close>

datatype error =
    AppEngineConfigException config_error
  | TypeError
  | KeyError
  | AttributeError

text \<open>\<open>d.get(k)\<close> and \<open>d[k] = v\<close> on a dictionary.\<close>

definition dict_get :: "pydict \<Rightarrow> pyval \<Rightarrow> pyval" where
  "dict_get d k = (case map_of d k of None \<Rightarrow> PNone | Some v \<Rightarrow> v)"

fun setitem :: "pydict \<Rightarrow> pyval \<Rightarrow> pyval \<Rightarrow> pydict" where
  "setitem [] k v = [(k, v)]"
| "setitem ((k', v') # d) k v = (if k' = k then (k, v) # d else (k', v') # setitem d k v)"

section \<open>Regular expressions\<close>

text \<open>
  The fragment of the \<open>re\<close> syntax that the module's pattern uses: character sets,
  ranges, the whitespace class, sequence, alternative and the three repetitions.
  \<open>Zero\<close> matches nothing and \<open>One\<close> the empty string only; they arise in derivatives.
\<close>

datatype regex =
    Zero
  | One
  | OneOf string
  | Range char char
  | Space
  | Seq regex regex
  | Alt regex regex
  | Star regex
  | Plus regex
  | Opt regex

text \<open>
  The code points that \<open>\s\<close> matches in a pattern that is a str: the characters that
  the interpreter counts as whitespace, from the tab to the ideographic space.
\<close>

definition whitespace :: "nat list" where
  "whitespace =
     [0x09, 0x0A, 0x0B, 0x0C, 0x0D, 0x1C, 0x1D, 0x1E, 0x1F, 0x20, 0x85, 0xA0, 0x1680,
      0x2000, 0x2001, 0x2002, 0x2003, 0x2004, 0x2005, 0x2006, 0x2007, 0x2008, 0x2009, 0x200A,
      0x2028, 0x2029, 0x202F, 0x205F, 0x3000]"

definition is_space :: "nat \<Rightarrow> bool" where
  "is_space c = (c \<in> set whitespace)"

definition in_range :: "char \<Rightarrow> char \<Rightarrow> nat \<Rightarrow> bool" where
  "in_range lo hi c = (of_char lo \<le> c \<and> c \<le> of_char hi)"

fun nullable :: "regex \<Rightarrow> bool" where
  "nullable Zero = False"
| "nullable One = True"
| "nullable (OneOf cs) = False"
| "nullable (Range lo hi) = False"
| "nullable Space = False"
| "nullable (Seq r s) = (nullable r \<and> nullable s)"
| "nullable (Alt r s) = (nullable r \<or> nullable s)"
| "nullable (Star r) = True"
| "nullable (Plus r) = nullable r"
| "nullable (Opt r) = True"

fun deriv :: "nat \<Rightarrow> regex \<Rightarrow> regex" where
  "deriv c Zero = Zero"
| "deriv c One = Zero"
| "deriv c (OneOf cs) = (if c \<in> set (ustr cs) then One else Zero)"
| "deriv c (Range lo hi) = (if in_range lo hi c then One else Zero)"
| "deriv c Space = (if is_space c then One else Zero)"
| "deriv c (Seq r s) =
     (if nullable r then Alt (Seq (deriv c r) s) (deriv c s) else Seq (deriv c r) s)"
| "deriv c (Alt r s) = Alt (deriv c r) (deriv c s)"
| "deriv c (Star r) = Seq (deriv c r) (Star r)"
| "deriv c (Plus r) = Seq (deriv c r) (Star r)"
| "deriv c (Opt r) = deriv c r"

text \<open>
  Whether the whole of a string matches a pattern, by derivatives: the string is in the
  language of the pattern (\<open>fullmatch_iff\<close> below).
\<close>

fun fullmatch :: "regex \<Rightarrow> pystr \<Rightarrow> bool" where
  "fullmatch r [] = nullable r"
| "fullmatch r (c # cs) = fullmatch (deriv c r) cs"

text \<open>
  \<open>re.compile('^' + r + '$').match\<close>, as a truth value. The match starts at the
  beginning of the string, and \<open>$\<close> stands at its end or just before a newline that
  ends it. Matching anything but a string is a TypeError.
\<close>

definition anchored_match :: "regex \<Rightarrow> pyval \<Rightarrow> error + bool" where
  "anchored_match r val =
     (case val of
        PStr s \<Rightarrow>
          Inr (fullmatch r s \<or> (s \<noteq> [] \<and> last s = 0x0A \<and> fullmatch r (butlast s)))
      | _ \<Rightarrow> Inl TypeError)"

section \<open>The module\<close>

text \<open>\<open>([0-9]+)([DdHhMm]|[sS]?)\<close>\<close>

definition DELTA_REGEX :: regex where
  "DELTA_REGEX =
     Seq (Plus (Range CHR ''0'' CHR ''9'')) (Alt (OneOf ''DdHhMm'') (Opt (OneOf ''sS'')))"

text \<open>
  The pattern between \<open>^\<close> and \<open>$\<close>: \<open>\s\<close> starred, a delta, any number of
  (\<open>\s+\<close>, delta), \<open>\s\<close> starred.
\<close>

definition EXPIRATION_RE :: regex where
  "EXPIRATION_RE =
     Seq (Star Space)
       (Seq DELTA_REGEX (Seq (Star (Seq (Plus Space) DELTA_REGEX)) (Star Space)))"

record handler =
  url :: pyval
  application_readable :: pyval
  auth_fail_action :: pyval
  expiration :: pyval
  http_headers :: pyval
  login :: pyval
  mime_type :: pyval
  redirect_http_response_code :: pyval
  script :: pyval
  secure :: pyval
  static_dir :: pyval
  static_files :: pyval
  upload :: pyval

definition API_FIELDS :: "(string \<times> string) list" where
  "API_FIELDS =
     [(''secure'', ''securityLevel''),
      (''login'', ''login''),
      (''auth_fail_action'', ''authFailAction''),
      (''redirect_http_response_code'', ''redirectHttpResponseCode'')]"

definition API_VALUES :: "(string \<times> (literal \<times> string) list) list" where
  "API_VALUES =
     [(''securityLevel'',
         [(LStr ''optional'', ''SECURE_OPTIONAL''),
          (LStr ''never'', ''SECURE_NEVER''),
          (LStr ''always'', ''SECURE_ALWAYS'')]),
      (''login'',
         [(LStr ''optional'', ''LOGIN_OPTIONAL''),
          (LStr ''required'', ''LOGIN_REQUIRED''),
          (LStr ''admin'', ''LOGIN_ADMIN'')]),
      (''authFailAction'',
         [(LStr ''redirect'', ''AUTH_FAIL_ACTION_REDIRECT''),
          (LStr ''unauthorized'', ''AUTH_FAIL_ACTION_UNAUTHORIZED'')]),
      (''redirectHttpResponseCode'',
         [(LInt 301, ''REDIRECT_HTTP_RESPONSE_CODE_301''),
          (LInt 302, ''REDIRECT_HTTP_RESPONSE_CODE_302''),
          (LInt 303, ''REDIRECT_HTTP_RESPONSE_CODE_303''),
          (LInt 307, ''REDIRECT_HTTP_RESPONSE_CODE_307'')])]"

text \<open>
  Each rule gives the truth value that \<open>not rule(value)\<close> tests, or the exception the
  call raises. The entries stand in the order of the class body, in which a dict is
  iterated from Python 3.7 on; the order decides only which of several refused values is
  reported.
\<close>

definition FIELD_RULES :: "(string \<times> (pyval \<Rightarrow> error + bool)) list" where
  "FIELD_RULES =
     [(''application_readable'', \<lambda>val. Inr (isinstance_bool val)),
      (''auth_fail_action'', \<lambda>val. Inr (py_in val [LStr ''redirect'', LStr ''unauthorized''])),
      (''expiration'', anchored_match EXPIRATION_RE),
      (''http_headers'', \<lambda>val. Inr (isinstance_dict val)),
      (''login'', \<lambda>val. Inr (py_in val [LStr ''optional'', LStr ''required'', LStr ''admin''])),
      (''mime_type'', \<lambda>val. Inr (isinstance_str val)),
      (''redirect_http_response_code'',
         \<lambda>val. Inr (py_in val [LInt 301, LInt 302, LInt 303, LInt 307])),
      (''script'', \<lambda>val. Inr (isinstance_str val)),
      (''secure'', \<lambda>val. Inr (py_in val [LStr ''optional'', LStr ''never'', LStr ''always''])),
      (''static_dir'', \<lambda>val. Inr (isinstance_str val)),
      (''static_files'', \<lambda>val. Inr (isinstance_str val)),
      (''upload'', \<lambda>val. Inr (isinstance_str val)),
      (''url'', \<lambda>val. Inr (isinstance_str val))]"

definition STATIC_API_FIELDS :: "(string \<times> string) list" where
  "STATIC_API_FIELDS =
     [(''upload'', ''uploadPathRegex''),
      (''http_headers'', ''httpHeaders''),
      (''mime_type'', ''mimeType''),
      (''expiration'', ''expiration''),
      (''application_readable'', ''applicationReadable'')]"

text \<open>\<open>Handler.__init__\<close>\<close>

definition Handler :: "pyval \<Rightarrow> handler" where
  "Handler u =
     \<lparr>url = u, application_readable = PNone, auth_fail_action = PNone, expiration = PNone,
      http_headers = PNone, login = PNone, mime_type = PNone,
      redirect_http_response_code = PNone, script = PNone, secure = PNone,
      static_dir = PNone, static_files = PNone, upload = PNone\<rparr>"

definition static_defined :: "handler \<Rightarrow> bool" where
  "static_defined self = (static_dir self \<noteq> PNone \<or> static_files self \<noteq> PNone)"

text \<open>
  \<open>getattr\<close> and \<open>setattr\<close> on a Handler. The module calls them with the keys of its
  three field tables only, which all are attributes set by \<open>__init__\<close>; another name is
  an AttributeError for \<open>getattr\<close>. (\<open>setattr\<close> with another name would add an
  attribute that nothing reads; the record has no place for it.)
\<close>

definition getattr :: "handler \<Rightarrow> string \<Rightarrow> error + pyval" where
  "getattr self name =
     (if name = ''url'' then Inr (url self)
      else if name = ''application_readable'' then Inr (application_readable self)
      else if name = ''auth_fail_action'' then Inr (auth_fail_action self)
      else if name = ''expiration'' then Inr (expiration self)
      else if name = ''http_headers'' then Inr (http_headers self)
      else if name = ''login'' then Inr (login self)
      else if name = ''mime_type'' then Inr (mime_type self)
      else if name = ''redirect_http_response_code'' then Inr (redirect_http_response_code self)
      else if name = ''script'' then Inr (script self)
      else if name = ''secure'' then Inr (secure self)
      else if name = ''static_dir'' then Inr (static_dir self)
      else if name = ''static_files'' then Inr (static_files self)
      else if name = ''upload'' then Inr (upload self)
      else Inl AttributeError)"

definition setattr :: "handler \<Rightarrow> string \<Rightarrow> pyval \<Rightarrow> handler" where
  "setattr self name v =
     (if name = ''url'' then self\<lparr>url := v\<rparr>
      else if name = ''application_readable'' then self\<lparr>application_readable := v\<rparr>
      else if name = ''auth_fail_action'' then self\<lparr>auth_fail_action := v\<rparr>
      else if name = ''expiration'' then self\<lparr>expiration := v\<rparr>
      else if name = ''http_headers'' then self\<lparr>http_headers := v\<rparr>
      else if name = ''login'' then self\<lparr>login := v\<rparr>
      else if name = ''mime_type'' then self\<lparr>mime_type := v\<rparr>
      else if name = ''redirect_http_response_code'' then self\<lparr>redirect_http_response_code := v\<rparr>
      else if name = ''script'' then self\<lparr>script := v\<rparr>
      else if name = ''secure'' then self\<lparr>secure := v\<rparr>
      else if name = ''static_dir'' then self\<lparr>static_dir := v\<rparr>
      else if name = ''static_files'' then self\<lparr>static_files := v\<rparr>
      else if name = ''upload'' then self\<lparr>upload := v\<rparr>
      else self)"

subsection \<open>\<open>Handler.from_yaml\<close>\<close>

text \<open>\<open>field in cls.FIELD_RULES\<close>: the keys of the table are strings.\<close>

fun recognized :: "pyval \<Rightarrow> bool" where
  "recognized (PStr name) = (name \<in> set (map (\<lambda>rule. ustr (fst rule)) FIELD_RULES))"
| "recognized _ = False"

text \<open>
  The loop over \<open>FIELD_RULES.items()\<close>: a field that is absent or None is skipped, a
  value its rule refuses is an error, any other value is stored in the handler.
\<close>

fun check_fields ::
  "pydict \<Rightarrow> (string \<times> (pyval \<Rightarrow> error + bool)) list \<Rightarrow> handler \<Rightarrow> error + handler" where
  "check_fields yaml_entry [] h = Inr h"
| "check_fields yaml_entry ((field, rule) # rules) h =
     (let val = dict_get yaml_entry (Str field) in
      if val \<noteq> PNone then
        (case rule val of
           Inl e \<Rightarrow> Inl e
         | Inr ok \<Rightarrow>
             if \<not> ok then Inl (AppEngineConfigException (InvalidValue field val))
             else check_fields yaml_entry rules (setattr h field val))
      else check_fields yaml_entry rules h)"

definition from_yaml :: "pydict \<Rightarrow> error + handler" where
  "from_yaml yaml_entry =
     (case map_of yaml_entry (Str ''url'') of
        None \<Rightarrow> Inl (AppEngineConfigException (MissingUrl yaml_entry))
      | Some u \<Rightarrow>
          (case find (\<lambda>field. \<not> recognized field) (map fst yaml_entry) of
             Some field \<Rightarrow> Inl (AppEngineConfigException (UnrecognizedField field))
           | None \<Rightarrow>
               (case check_fields yaml_entry FIELD_RULES (Handler u) of
                  Inl e \<Rightarrow> Inl e
                | Inr h \<Rightarrow>
                    if script h \<noteq> PNone \<and> static_defined h
                    then Inl (AppEngineConfigException ScriptAndStatic)
                    else if script h = PNone \<and> \<not> static_defined h
                    then Inl (AppEngineConfigException NoScriptNoStatic)
                    else if static_defined h \<and> static_dir h \<noteq> PNone \<and> static_files h \<noteq> PNone
                    then Inl (AppEngineConfigException StaticDirAndFiles)
                    else Inr h)))"

subsection \<open>\<open>Handler.to_api_dict\<close>\<close>

text \<open>
  \<open>table[value]\<close> for one of the inner tables of \<open>API_VALUES\<close>: an unhashable value is
  a TypeError, a value equal to no key a KeyError.
\<close>

definition getitem :: "(literal \<times> string) list \<Rightarrow> pyval \<Rightarrow> error + string" where
  "getitem table v =
     (if \<not> hashable v then Inl TypeError
      else (case find (\<lambda>(k, c). py_eq v k) table of
              None \<Rightarrow> Inl KeyError
            | Some (k, c) \<Rightarrow> Inr c))"

text \<open>The loop over \<open>API_FIELDS.items()\<close>, on the dictionary built so far.\<close>

fun api_fields_loop :: "handler \<Rightarrow> (string \<times> string) list \<Rightarrow> pydict \<Rightarrow> error + pydict" where
  "api_fields_loop self [] out = Inr out"
| "api_fields_loop self ((attr, api_field) # rest) out =
     (case getattr self attr of
        Inl e \<Rightarrow> Inl e
      | Inr val \<Rightarrow>
          if val \<noteq> PNone then
            (case map_of API_VALUES api_field of
               None \<Rightarrow> Inl KeyError
             | Some table \<Rightarrow>
                 (case getitem table val of
                    Inl e \<Rightarrow> Inl e
                  | Inr c \<Rightarrow> api_fields_loop self rest (setitem out (Str api_field) (Str c))))
          else api_fields_loop self rest out)"

text \<open>The loop over \<open>STATIC_API_FIELDS.items()\<close>, on the static section built so far.\<close>

fun static_fields_loop :: "handler \<Rightarrow> (string \<times> string) list \<Rightarrow> pydict \<Rightarrow> error + pydict" where
  "static_fields_loop self [] section = Inr section"
| "static_fields_loop self ((attr, api_field) # rest) section =
     (case getattr self attr of
        Inl e \<Rightarrow> Inl e
      | Inr val \<Rightarrow>
          if val \<noteq> PNone then static_fields_loop self rest (setitem section (Str api_field) val)
          else static_fields_loop self rest section)"

text \<open>
  \<open>'{}/.*'.format(obj)\<close>. A string is inserted as it is. For any other object the
  text is what the built-in \<open>str\<close> makes of it, which is a parameter here.
\<close>

definition format_upload :: "(pyval \<Rightarrow> pystr) \<Rightarrow> pyval \<Rightarrow> pystr" where
  "format_upload str_of obj = (case obj of PStr s \<Rightarrow> s | _ \<Rightarrow> str_of obj) @ ustr ''/.*''"

definition to_api_dict :: "(pyval \<Rightarrow> pystr) \<Rightarrow> handler \<Rightarrow> error + pydict" where
  "to_api_dict str_of self =
     (case api_fields_loop self API_FIELDS [(Str ''urlRegex'', url self)] of
        Inl e \<Rightarrow> Inl e
      | Inr out \<Rightarrow>
          if static_defined self then
            (case static_fields_loop self STATIC_API_FIELDS
                    (if truthy (static_dir self)
                     then [(Str ''path'', static_dir self),
                           (Str ''uploadPathRegex'', PStr (format_upload str_of (static_dir self)))]
                     else [(Str ''path'', static_files self)]) of
               Inl e \<Rightarrow> Inl e
             | Inr static_section \<Rightarrow> Inr (setitem out (Str ''staticFiles'') (PDict static_section)))
          else Inr (setitem out (Str ''script'') (PDict [(Str ''scriptPath'', script self)])))"

subsection \<open>A call of the method\<close>

text \<open>
  The value a call of \<open>to_api_dict\<close> returns and the object after the call. The body
  reads the attributes of \<open>self\<close> and assigns none of them.
\<close>

definition call_to_api_dict :: "(pyval \<Rightarrow> pystr) \<Rightarrow> handler \<Rightarrow> (error + pydict) \<times> handler" where
  "call_to_api_dict str_of self = (to_api_dict str_of self, self)"

section \<open>The expiration grammar and the validation table of the specification\<close>

text \<open>
  These follow the words of the specification, to be compared with \<open>EXPIRATION_RE\<close> and
  \<open>FIELD_RULES\<close>. A duration expression is one or more delta terms separated by
  whitespace, with whitespace allowed before the first and after the last; a delta term
  is one or more digits followed by one of the units d, D, h, H, m, M, s, S or by nothing.

  Whitespace is what the language calls whitespace in a str (\<open>str.isspace\<close>): the
  characters of general category Zs and those of bidirectional class WS, B or S. These
  are the controls 9 to 13 and 28 to 31, the space, the next line control 133, the
  no-break space 160, the ogham space mark 5760, the spaces 8192 to 8202, the line and
  paragraph separators 8232 and 8233, the narrow no-break space 8239, the medium
  mathematical space 8287 and the ideographic space 12288.
\<close>

definition is_whitespace :: "nat \<Rightarrow> bool" where
  "is_whitespace c =
     (9 \<le> c \<and> c \<le> 13 \<or> 28 \<le> c \<and> c \<le> 32 \<or> c = 133 \<or> c = 160 \<or> c = 5760 \<or>
      8192 \<le> c \<and> c \<le> 8202 \<or> c = 8232 \<or> c = 8233 \<or> c = 8239 \<or> c = 8287 \<or> c = 12288)"



text \<open>
  The maximal runs of characters other than whitespace in a string, from left to right;
  \<open>cur\<close> is the run being read.
\<close>

fun words_from :: "pystr \<Rightarrow> pystr \<Rightarrow> pystr list" where
  "words_from cur [] = (if cur = [] then [] else [cur])"
| "words_from cur (c # cs) =
     (if is_whitespace c then (if cur = [] then words_from [] cs else cur # words_from [] cs)
      else words_from (cur @ [c]) cs)"




section \<open>Auxiliary notions for the proofs\<close>

text \<open>The handler whose attributes are the entries of a dictionary, None where absent.\<close>

definition attrs_of :: "pydict \<Rightarrow> handler" where
  "attrs_of d =
     \<lparr>url = dict_get d (Str ''url''),
      application_readable = dict_get d (Str ''application_readable''),
      auth_fail_action = dict_get d (Str ''auth_fail_action''),
      expiration = dict_get d (Str ''expiration''),
      http_headers = dict_get d (Str ''http_headers''),
      login = dict_get d (Str ''login''),
      mime_type = dict_get d (Str ''mime_type''),
      redirect_http_response_code = dict_get d (Str ''redirect_http_response_code''),
      script = dict_get d (Str ''script''),
      secure = dict_get d (Str ''secure''),
      static_dir = dict_get d (Str ''static_dir''),
      static_files = dict_get d (Str ''static_files''),
      upload = dict_get d (Str ''upload'')\<rparr>"

text \<open>An entry of \<open>FIELD_RULES\<close> lets a dictionary through.\<close>

definition passes :: "pydict \<Rightarrow> string \<times> (pyval \<Rightarrow> error + bool) \<Rightarrow> bool" where
  "passes d fr = (dict_get d (Str (fst fr)) = PNone \<or> snd fr (dict_get d (Str (fst fr))) = Inr True)"

text \<open>The effect of one round of the loop of \<open>from_yaml\<close> that does not raise.\<close>

definition store :: "pydict \<Rightarrow> handler \<Rightarrow> string \<Rightarrow> handler" where
  "store d h name = (if dict_get d (Str name) = PNone then h else setattr h name (dict_get d (Str name)))"






section \<open>Strings\<close>

lemma ustr_eq_iff [simp]: "ustr a = ustr b \<longleftrightarrow> a = b"
  by (simp add: ustr_def inj_map_eq_map inj_of_char)

lemma ustr_Nil [simp]: "ustr [] = []"
  by (simp add: ustr_def)

lemma ustr_eq_Nil [simp]: "ustr a = [] \<longleftrightarrow> a = []"
  by (simp add: ustr_def)

section \<open>The loop of \<open>from_yaml\<close>\<close>

lemma check_fields_Inr_iff:
  "check_fields d rules h = Inr h' \<longleftrightarrow>
     list_all (passes d) rules \<and> h' = foldl (store d) h (map fst rules)"
  by (induction rules arbitrary: h)
     (auto simp: passes_def store_def Let_def split: sum.splits if_splits)

lemma check_fields_Inl:
  "check_fields d rules h = Inl e \<Longrightarrow>
     \<exists>field rule. (field, rule) \<in> set rules \<and> dict_get d (Str field) \<noteq> PNone \<and>
       (rule (dict_get d (Str field)) = Inl e \<or>
        rule (dict_get d (Str field)) = Inr False \<and>
        e = AppEngineConfigException (InvalidValue field (dict_get d (Str field))))"
proof (induction rules arbitrary: h)
  case Nil
  then show ?case by simp
next
  case (Cons fr rules)
  obtain field rule where fr: "fr = (field, rule)" by (cases fr)
  show ?case
  proof (cases "dict_get d (Str field) = PNone")
    case True
    with Cons.prems fr have "check_fields d rules h = Inl e" by simp
    from Cons.IH[OF this] show ?thesis by auto
  next
    case False
    show ?thesis
    proof (cases "rule (dict_get d (Str field))")
      case (Inl e')
      with Cons.prems fr False have "e' = e" by simp
      with Inl False fr show ?thesis by auto
    next
      case (Inr ok)
      show ?thesis
      proof (cases ok)
        case True
        with Cons.prems fr False Inr
        have "check_fields d rules (setattr h field (dict_get d (Str field))) = Inl e" by simp
        from Cons.IH[OF this] show ?thesis by auto
      next
        case False
        with Cons.prems fr \<open>dict_get d (Str field) \<noteq> PNone\<close> Inr show ?thesis by auto
      qed
    qed
  qed
qed

lemma setattr_sel:
  "url (setattr h n v) = (if n = ''url'' then v else url h)"
  "application_readable (setattr h n v) = (if n = ''application_readable'' then v else application_readable h)"
  "auth_fail_action (setattr h n v) = (if n = ''auth_fail_action'' then v else auth_fail_action h)"
  "expiration (setattr h n v) = (if n = ''expiration'' then v else expiration h)"
  "http_headers (setattr h n v) = (if n = ''http_headers'' then v else http_headers h)"
  "login (setattr h n v) = (if n = ''login'' then v else login h)"
  "mime_type (setattr h n v) = (if n = ''mime_type'' then v else mime_type h)"
  "redirect_http_response_code (setattr h n v) = (if n = ''redirect_http_response_code'' then v else redirect_http_response_code h)"
  "script (setattr h n v) = (if n = ''script'' then v else script h)"
  "secure (setattr h n v) = (if n = ''secure'' then v else secure h)"
  "static_dir (setattr h n v) = (if n = ''static_dir'' then v else static_dir h)"
  "static_files (setattr h n v) = (if n = ''static_files'' then v else static_files h)"
  "upload (setattr h n v) = (if n = ''upload'' then v else upload h)"
  by (simp_all add: setattr_def)

lemma foldl_store_sel:
  "url (foldl (store d) h ns) = (if ''url'' \<in> set ns \<and> dict_get d (Str ''url'') \<noteq> PNone then dict_get d (Str ''url'') else url h)"
  "application_readable (foldl (store d) h ns) = (if ''application_readable'' \<in> set ns \<and> dict_get d (Str ''application_readable'') \<noteq> PNone then dict_get d (Str ''application_readable'') else application_readable h)"
  "auth_fail_action (foldl (store d) h ns) = (if ''auth_fail_action'' \<in> set ns \<and> dict_get d (Str ''auth_fail_action'') \<noteq> PNone then dict_get d (Str ''auth_fail_action'') else auth_fail_action h)"
  "expiration (foldl (store d) h ns) = (if ''expiration'' \<in> set ns \<and> dict_get d (Str ''expiration'') \<noteq> PNone then dict_get d (Str ''expiration'') else expiration h)"
  "http_headers (foldl (store d) h ns) = (if ''http_headers'' \<in> set ns \<and> dict_get d (Str ''http_headers'') \<noteq> PNone then dict_get d (Str ''http_headers'') else http_headers h)"
  "login (foldl (store d) h ns) = (if ''login'' \<in> set ns \<and> dict_get d (Str ''login'') \<noteq> PNone then dict_get d (Str ''login'') else login h)"
  "mime_type (foldl (store d) h ns) = (if ''mime_type'' \<in> set ns \<and> dict_get d (Str ''mime_type'') \<noteq> PNone then dict_get d (Str ''mime_type'') else mime_type h)"
  "redirect_http_response_code (foldl (store d) h ns) = (if ''redirect_http_response_code'' \<in> set ns \<and> dict_get d (Str ''redirect_http_response_code'') \<noteq> PNone then dict_get d (Str ''redirect_http_response_code'') else redirect_http_response_code h)"
  "script (foldl (store d) h ns) = (if ''script'' \<in> set ns \<and> dict_get d (Str ''script'') \<noteq> PNone then dict_get d (Str ''script'') else script h)"
  "secure (foldl (store d) h ns) = (if ''secure'' \<in> set ns \<and> dict_get d (Str ''secure'') \<noteq> PNone then dict_get d (Str ''secure'') else secure h)"
  "static_dir (foldl (store d) h ns) = (if ''static_dir'' \<in> set ns \<and> dict_get d (Str ''static_dir'') \<noteq> PNone then dict_get d (Str ''static_dir'') else static_dir h)"
  "static_files (foldl (store d) h ns) = (if ''static_files'' \<in> set ns \<and> dict_get d (Str ''static_files'') \<noteq> PNone then dict_get d (Str ''static_files'') else static_files h)"
  "upload (foldl (store d) h ns) = (if ''upload'' \<in> set ns \<and> dict_get d (Str ''upload'') \<noteq> PNone then dict_get d (Str ''upload'') else upload h)"
  by (induction ns arbitrary: h; simp add: store_def setattr_sel)+

lemma FIELD_RULES_names:
  "''url'' \<in> fst ` set FIELD_RULES"
  "''application_readable'' \<in> fst ` set FIELD_RULES"
  "''auth_fail_action'' \<in> fst ` set FIELD_RULES"
  "''expiration'' \<in> fst ` set FIELD_RULES"
  "''http_headers'' \<in> fst ` set FIELD_RULES"
  "''login'' \<in> fst ` set FIELD_RULES"
  "''mime_type'' \<in> fst ` set FIELD_RULES"
  "''redirect_http_response_code'' \<in> fst ` set FIELD_RULES"
  "''script'' \<in> fst ` set FIELD_RULES"
  "''secure'' \<in> fst ` set FIELD_RULES"
  "''static_dir'' \<in> fst ` set FIELD_RULES"
  "''static_files'' \<in> fst ` set FIELD_RULES"
  "''upload'' \<in> fst ` set FIELD_RULES"
  by (simp_all add: FIELD_RULES_def)

lemma foldl_store_FIELD_RULES:
  assumes "map_of d (Str ''url'') = Some u"
  shows "foldl (store d) (Handler u) (map fst FIELD_RULES) = attrs_of d"
proof (rule handler.equality)
  have u: "dict_get d (Str ''url'') = u" using assms by (simp add: dict_get_def)
  show "url (foldl (store d) (Handler u) (map fst FIELD_RULES)) = url (attrs_of d)"
    by (simp add: foldl_store_sel u attrs_of_def Handler_def)
qed (simp_all add: foldl_store_sel attrs_of_def Handler_def FIELD_RULES_names)

lemma from_yaml_Inr_iff:
  "from_yaml d = Inr h \<longleftrightarrow>
     map_of d (Str ''url'') \<noteq> None \<and>
     list_all recognized (map fst d) \<and>
     list_all (passes d) FIELD_RULES \<and>
     (script (attrs_of d) \<noteq> PNone) \<noteq> static_defined (attrs_of d) \<and>
     \<not> (static_dir (attrs_of d) \<noteq> PNone \<and> static_files (attrs_of d) \<noteq> PNone) \<and>
     h = attrs_of d"
proof (cases "map_of d (Str ''url'')")
  case None
  then show ?thesis by (simp add: from_yaml_def)
next
  case (Some u)
  have fnd: "(find (\<lambda>field. \<not> recognized field) (map fst d) = None) = list_all recognized (map fst d)"
    by (simp add: find_None_iff list_all_iff)
  show ?thesis
  proof (cases "find (\<lambda>field. \<not> recognized field) (map fst d)")
    case None
    with fnd have rec: "list_all recognized (map fst d)" by simp
    show ?thesis
    proof (cases "check_fields d FIELD_RULES (Handler u)")
      case (Inl e)
      then have "\<not> list_all (passes d) FIELD_RULES"
        using check_fields_Inr_iff[of d FIELD_RULES "Handler u"] by auto
      with Inl Some None show ?thesis by (simp add: from_yaml_def)
    next
      case (Inr h0)
      then have p: "list_all (passes d) FIELD_RULES" and h0: "h0 = attrs_of d"
        using check_fields_Inr_iff[of d FIELD_RULES "Handler u" h0]
          foldl_store_FIELD_RULES[OF Some] by auto
      show ?thesis
        using Some None Inr rec p unfolding h0 from_yaml_def by (auto simp: static_defined_def)
    qed
  next
    case (Some field)
    with fnd have "\<not> list_all recognized (map fst d)" by simp
    with Some \<open>map_of d (Str ''url'') = Some u\<close> show ?thesis by (simp add: from_yaml_def)
  qed
qed

section \<open>The loops of \<open>to_api_dict\<close>\<close>

lemma map_of_setitem:
  "map_of (setitem d k v) k' = (if k' = k then Some v else map_of d k')"
  by (induction d) auto

lemma getattr_Inr_cases:
  "getattr self ''secure'' = Inr (secure self)"
  "getattr self ''login'' = Inr (login self)"
  "getattr self ''auth_fail_action'' = Inr (auth_fail_action self)"
  "getattr self ''redirect_http_response_code'' = Inr (redirect_http_response_code self)"
  "getattr self ''upload'' = Inr (upload self)"
  "getattr self ''http_headers'' = Inr (http_headers self)"
  "getattr self ''mime_type'' = Inr (mime_type self)"
  "getattr self ''expiration'' = Inr (expiration self)"
  "getattr self ''application_readable'' = Inr (application_readable self)"
  by (simp_all add: getattr_def)

lemma api_fields_loop_other:
  "api_fields_loop self flds out = Inr out' \<Longrightarrow> k \<notin> (\<lambda>p. Str (snd p)) ` set flds \<Longrightarrow>
     map_of out' k = map_of out k"
proof (induction flds arbitrary: out)
  case Nil
  then show ?case by simp
next
  case (Cons p flds)
  obtain attr api where p: "p = (attr, api)" by (cases p)
  from Cons.prems(2) p have k: "k \<noteq> Str api" "k \<notin> (\<lambda>p. Str (snd p)) ` set flds" by auto
  from Cons.prems(1) p obtain out1 where
    "api_fields_loop self flds out1 = Inr out'" "map_of out1 k = map_of out k"
    using k(1) by (auto simp: map_of_setitem split: sum.splits option.splits if_splits)
  with Cons.IH[OF _ k(2)] show ?case by simp
qed

lemma api_fields_loop_key:
  "api_fields_loop self flds out = Inr out' \<Longrightarrow> distinct (map snd flds) \<Longrightarrow>
   (attr, api) \<in> set flds \<Longrightarrow> getattr self attr = Inr v \<Longrightarrow>
     (v = PNone \<and> map_of out' (Str api) = map_of out (Str api)) \<or>
     (v \<noteq> PNone \<and> (\<exists>table c. map_of API_VALUES api = Some table \<and> getitem table v = Inr c \<and>
         map_of out' (Str api) = Some (Str c)))"
proof (induction flds arbitrary: out)
  case Nil
  then show ?case by simp
next
  case (Cons p flds)
  obtain attr1 api1 where p: "p = (attr1, api1)" by (cases p)
  from Cons.prems(2) p have d: "distinct (map snd flds)" and nin: "api1 \<notin> snd ` set flds"
    by auto
  show ?case
  proof (cases "(attr, api) = p")
    case True
    then have eq: "attr1 = attr" "api1 = api" using p by auto
    have other: "Str api \<notin> (\<lambda>p. Str (snd p)) ` set flds" using nin eq by force
    show ?thesis
    proof (cases "v = PNone")
      case True
      with Cons.prems(1,4) p eq have "api_fields_loop self flds out = Inr out'" by simp
      from api_fields_loop_other[OF this other] True show ?thesis by simp
    next
      case False
      with Cons.prems(1,4) p eq obtain table c where
        t: "map_of API_VALUES api = Some table" "getitem table v = Inr c"
        and l: "api_fields_loop self flds (setitem out (Str api) (Str c)) = Inr out'"
        by (auto split: option.splits sum.splits)
      from api_fields_loop_other[OF l other] t False show ?thesis by (simp add: map_of_setitem)
    qed
  next
    case False
    with Cons.prems(3) have mem: "(attr, api) \<in> set flds" by auto
    then have ne: "api \<noteq> api1" using nin by force
    from Cons.prems(1) p obtain out1 where
      l: "api_fields_loop self flds out1 = Inr out'" and m: "map_of out1 (Str api) = map_of out (Str api)"
      using ne by (auto simp: map_of_setitem split: sum.splits option.splits if_splits)
    from Cons.IH[OF l d mem Cons.prems(4)] m show ?thesis by simp
  qed
qed

lemma api_fields_loop_total:
  "list_all (\<lambda>p. \<exists>v. getattr self (fst p) = Inr v \<and>
        (v = PNone \<or> (\<exists>table c. map_of API_VALUES (snd p) = Some table \<and> getitem table v = Inr c)))
      flds \<Longrightarrow>
   \<exists>out'. api_fields_loop self flds out = Inr out'"
proof (induction flds arbitrary: out)
  case Nil
  then show ?case by simp
next
  case (Cons p flds)
  obtain attr api where p: "p = (attr, api)" by (cases p)
  from Cons.prems have rest: "list_all (\<lambda>p. \<exists>v. getattr self (fst p) = Inr v \<and>
        (v = PNone \<or> (\<exists>table c. map_of API_VALUES (snd p) = Some table \<and> getitem table v = Inr c)))
      flds" by simp
  from Cons.prems p obtain v where v: "getattr self attr = Inr v"
    "v = PNone \<or> (\<exists>table c. map_of API_VALUES api = Some table \<and> getitem table v = Inr c)"
    by auto
  show ?case
  proof (cases "v = PNone")
    case True
    with v p Cons.IH[OF rest, of out] show ?thesis by simp
  next
    case False
    with v obtain table c where "map_of API_VALUES api = Some table" "getitem table v = Inr c" by auto
    with v False p Cons.IH[OF rest, of "setitem out (Str api) (Str c)"] show ?thesis by simp
  qed
qed

lemma static_fields_loop_other:
  "static_fields_loop self flds sec = Inr sec' \<Longrightarrow> k \<notin> (\<lambda>p. Str (snd p)) ` set flds \<Longrightarrow>
     map_of sec' k = map_of sec k"
proof (induction flds arbitrary: sec)
  case Nil
  then show ?case by simp
next
  case (Cons p flds)
  obtain attr api where p: "p = (attr, api)" by (cases p)
  from Cons.prems(2) p have k: "k \<noteq> Str api" "k \<notin> (\<lambda>p. Str (snd p)) ` set flds" by auto
  from Cons.prems(1) p obtain sec1 where
    "static_fields_loop self flds sec1 = Inr sec'" "map_of sec1 k = map_of sec k"
    using k(1) by (auto simp: map_of_setitem split: sum.splits if_splits)
  with Cons.IH[OF _ k(2)] show ?case by simp
qed

lemma static_fields_loop_key:
  "static_fields_loop self flds sec = Inr sec' \<Longrightarrow> distinct (map snd flds) \<Longrightarrow>
   (attr, api) \<in> set flds \<Longrightarrow> getattr self attr = Inr v \<Longrightarrow>
     map_of sec' (Str api) = (if v = PNone then map_of sec (Str api) else Some v)"
proof (induction flds arbitrary: sec)
  case Nil
  then show ?case by simp
next
  case (Cons p flds)
  obtain attr1 api1 where p: "p = (attr1, api1)" by (cases p)
  from Cons.prems(2) p have d: "distinct (map snd flds)" and nin: "api1 \<notin> snd ` set flds"
    by auto
  show ?case
  proof (cases "(attr, api) = p")
    case True
    then have eq: "attr1 = attr" "api1 = api" using p by auto
    have other: "Str api \<notin> (\<lambda>p. Str (snd p)) ` set flds" using nin eq by force
    from Cons.prems(1,4) p eq
    have "static_fields_loop self flds (if v = PNone then sec else setitem sec (Str api) v) = Inr sec'"
      by (simp split: if_splits)
    from static_fields_loop_other[OF this other] show ?thesis by (simp add: map_of_setitem)
  next
    case False
    with Cons.prems(3) have mem: "(attr, api) \<in> set flds" by auto
    then have ne: "api \<noteq> api1" using nin by force
    from Cons.prems(1) p obtain sec1 where
      l: "static_fields_loop self flds sec1 = Inr sec'" and m: "map_of sec1 (Str api) = map_of sec (Str api)"
      using ne by (auto simp: map_of_setitem split: sum.splits if_splits)
    from Cons.IH[OF l d mem Cons.prems(4)] m show ?thesis by simp
  qed
qed

lemma static_fields_loop_total:
  "list_all (\<lambda>p. \<exists>v. getattr self (fst p) = Inr v) flds \<Longrightarrow>
   \<exists>sec'. static_fields_loop self flds sec = Inr sec'"
proof (induction flds arbitrary: sec)
  case Nil
  then show ?case by simp
next
  case (Cons p flds)
  obtain attr api where p: "p = (attr, api)" by (cases p)
  from Cons.prems p obtain v where v: "getattr self attr = Inr v" by auto
  from Cons.prems have rest: "list_all (\<lambda>p. \<exists>v. getattr self (fst p) = Inr v) flds" by simp
  show ?case
    using v p Cons.IH[OF rest, of sec] Cons.IH[OF rest, of "setitem sec (Str api) v"]
    by (cases "v = PNone") simp_all
qed

lemma py_in_getitem:
  "py_in v (map fst table) \<Longrightarrow> \<exists>c. getitem table v = Inr c"
proof -
  assume a: "py_in v (map fst table)"
  then obtain l where l: "l \<in> fst ` set table" "py_eq v l"
    by (auto simp: py_in_def list_ex_iff)
  then have h: "hashable v" by (cases v; cases l) auto
  from l obtain c where "(l, c) \<in> set table" by auto
  with l(2) have "find (\<lambda>(k, c). py_eq v k) table \<noteq> None"
    by (auto simp: find_None_iff)
  then obtain k c' where "find (\<lambda>(k, c). py_eq v k) table = Some (k, c')" by auto
  with h show ?thesis by (simp add: getitem_def)
qed

section \<open>Validated handlers\<close>

lemma attrs_of_sel:
  "url (attrs_of d) = dict_get d (Str ''url'')"
  "application_readable (attrs_of d) = dict_get d (Str ''application_readable'')"
  "auth_fail_action (attrs_of d) = dict_get d (Str ''auth_fail_action'')"
  "expiration (attrs_of d) = dict_get d (Str ''expiration'')"
  "http_headers (attrs_of d) = dict_get d (Str ''http_headers'')"
  "login (attrs_of d) = dict_get d (Str ''login'')"
  "mime_type (attrs_of d) = dict_get d (Str ''mime_type'')"
  "redirect_http_response_code (attrs_of d) = dict_get d (Str ''redirect_http_response_code'')"
  "script (attrs_of d) = dict_get d (Str ''script'')"
  "secure (attrs_of d) = dict_get d (Str ''secure'')"
  "static_dir (attrs_of d) = dict_get d (Str ''static_dir'')"
  "static_files (attrs_of d) = dict_get d (Str ''static_files'')"
  "upload (attrs_of d) = dict_get d (Str ''upload'')"
  by (simp_all add: attrs_of_def)

lemma passes_FIELD_RULES:
  "list_all (passes d) FIELD_RULES \<longleftrightarrow>
     (application_readable (attrs_of d) = PNone \<or> isinstance_bool (application_readable (attrs_of d))) \<and>
     (auth_fail_action (attrs_of d) = PNone \<or>
        py_in (auth_fail_action (attrs_of d)) [LStr ''redirect'', LStr ''unauthorized'']) \<and>
     (expiration (attrs_of d) = PNone \<or>
        anchored_match EXPIRATION_RE (expiration (attrs_of d)) = Inr True) \<and>
     (http_headers (attrs_of d) = PNone \<or> isinstance_dict (http_headers (attrs_of d))) \<and>
     (login (attrs_of d) = PNone \<or>
        py_in (login (attrs_of d)) [LStr ''optional'', LStr ''required'', LStr ''admin'']) \<and>
     (mime_type (attrs_of d) = PNone \<or> isinstance_str (mime_type (attrs_of d))) \<and>
     (redirect_http_response_code (attrs_of d) = PNone \<or>
        py_in (redirect_http_response_code (attrs_of d)) [LInt 301, LInt 302, LInt 303, LInt 307]) \<and>
     (script (attrs_of d) = PNone \<or> isinstance_str (script (attrs_of d))) \<and>
     (secure (attrs_of d) = PNone \<or>
        py_in (secure (attrs_of d)) [LStr ''optional'', LStr ''never'', LStr ''always'']) \<and>
     (static_dir (attrs_of d) = PNone \<or> isinstance_str (static_dir (attrs_of d))) \<and>
     (static_files (attrs_of d) = PNone \<or> isinstance_str (static_files (attrs_of d))) \<and>
     (upload (attrs_of d) = PNone \<or> isinstance_str (upload (attrs_of d))) \<and>
     (url (attrs_of d) = PNone \<or> isinstance_str (url (attrs_of d)))"
  by (simp add: FIELD_RULES_def passes_def attrs_of_sel)

lemma API_VALUES_tables:
  "map_of API_VALUES ''securityLevel'' =
     Some [(LStr ''optional'', ''SECURE_OPTIONAL''), (LStr ''never'', ''SECURE_NEVER''),
           (LStr ''always'', ''SECURE_ALWAYS'')]"
  "map_of API_VALUES ''login'' =
     Some [(LStr ''optional'', ''LOGIN_OPTIONAL''), (LStr ''required'', ''LOGIN_REQUIRED''),
           (LStr ''admin'', ''LOGIN_ADMIN'')]"
  "map_of API_VALUES ''authFailAction'' =
     Some [(LStr ''redirect'', ''AUTH_FAIL_ACTION_REDIRECT''),
           (LStr ''unauthorized'', ''AUTH_FAIL_ACTION_UNAUTHORIZED'')]"
  "map_of API_VALUES ''redirectHttpResponseCode'' =
     Some [(LInt 301, ''REDIRECT_HTTP_RESPONSE_CODE_301''),
           (LInt 302, ''REDIRECT_HTTP_RESPONSE_CODE_302''),
           (LInt 303, ''REDIRECT_HTTP_RESPONSE_CODE_303''),
           (LInt 307, ''REDIRECT_HTTP_RESPONSE_CODE_307'')]"
  by (simp_all add: API_VALUES_def)

lemma validated:
  assumes "from_yaml d = Inr h"
  shows "application_readable h = PNone \<or> isinstance_bool (application_readable h)"
    and "auth_fail_action h = PNone \<or>
           py_in (auth_fail_action h) [LStr ''redirect'', LStr ''unauthorized'']"
    and "expiration h = PNone \<or> anchored_match EXPIRATION_RE (expiration h) = Inr True"
    and "http_headers h = PNone \<or> isinstance_dict (http_headers h)"
    and "login h = PNone \<or> py_in (login h) [LStr ''optional'', LStr ''required'', LStr ''admin'']"
    and "mime_type h = PNone \<or> isinstance_str (mime_type h)"
    and "redirect_http_response_code h = PNone \<or>
           py_in (redirect_http_response_code h) [LInt 301, LInt 302, LInt 303, LInt 307]"
    and "script h = PNone \<or> isinstance_str (script h)"
    and "secure h = PNone \<or> py_in (secure h) [LStr ''optional'', LStr ''never'', LStr ''always'']"
    and "static_dir h = PNone \<or> isinstance_str (static_dir h)"
    and "static_files h = PNone \<or> isinstance_str (static_files h)"
    and "upload h = PNone \<or> isinstance_str (upload h)"
    and "url h = PNone \<or> isinstance_str (url h)"
    and "(script h \<noteq> PNone) \<noteq> static_defined h"
    and "\<not> (static_dir h \<noteq> PNone \<and> static_files h \<noteq> PNone)"
proof -
  from assms have p: "list_all (passes d) FIELD_RULES" and h: "h = attrs_of d"
    and c: "(script (attrs_of d) \<noteq> PNone) \<noteq> static_defined (attrs_of d)"
      "\<not> (static_dir (attrs_of d) \<noteq> PNone \<and> static_files (attrs_of d) \<noteq> PNone)"
    by (simp_all add: from_yaml_Inr_iff)
  note v = p[unfolded passes_FIELD_RULES, folded h]
  from v show "application_readable h = PNone \<or> isinstance_bool (application_readable h)" by simp
  from v show "auth_fail_action h = PNone \<or>
           py_in (auth_fail_action h) [LStr ''redirect'', LStr ''unauthorized'']" by simp
  from v show "expiration h = PNone \<or> anchored_match EXPIRATION_RE (expiration h) = Inr True" by simp
  from v show "http_headers h = PNone \<or> isinstance_dict (http_headers h)" by simp
  from v show "login h = PNone \<or> py_in (login h) [LStr ''optional'', LStr ''required'', LStr ''admin'']" by simp
  from v show "mime_type h = PNone \<or> isinstance_str (mime_type h)" by simp
  from v show "redirect_http_response_code h = PNone \<or>
           py_in (redirect_http_response_code h) [LInt 301, LInt 302, LInt 303, LInt 307]" by simp
  from v show "script h = PNone \<or> isinstance_str (script h)" by simp
  from v show "secure h = PNone \<or> py_in (secure h) [LStr ''optional'', LStr ''never'', LStr ''always'']" by simp
  from v show "static_dir h = PNone \<or> isinstance_str (static_dir h)" by simp
  from v show "static_files h = PNone \<or> isinstance_str (static_files h)" by simp
  from v show "upload h = PNone \<or> isinstance_str (upload h)" by simp
  from v show "url h = PNone \<or> isinstance_str (url h)" by simp
  from c h show "(script h \<noteq> PNone) \<noteq> static_defined h" by simp
  from c h show "\<not> (static_dir h \<noteq> PNone \<and> static_files h \<noteq> PNone)" by simp
qed

lemma api_fields_loop_validated:
  assumes "from_yaml d = Inr h"
  shows "\<exists>out'. api_fields_loop h API_FIELDS out = Inr out'"
proof (rule api_fields_loop_total)
  have s: "secure h = PNone \<or> (\<exists>c. getitem [(LStr ''optional'', ''SECURE_OPTIONAL''), (LStr ''never'', ''SECURE_NEVER''),
           (LStr ''always'', ''SECURE_ALWAYS'')] (secure h) = Inr c)"
    using validated(9)[OF assms] py_in_getitem[of "secure h" "[(LStr ''optional'', ''SECURE_OPTIONAL''), (LStr ''never'', ''SECURE_NEVER''),
           (LStr ''always'', ''SECURE_ALWAYS'')]"] by auto
  have l: "login h = PNone \<or> (\<exists>c. getitem [(LStr ''optional'', ''LOGIN_OPTIONAL''), (LStr ''required'', ''LOGIN_REQUIRED''),
           (LStr ''admin'', ''LOGIN_ADMIN'')] (login h) = Inr c)"
    using validated(5)[OF assms] py_in_getitem[of "login h" "[(LStr ''optional'', ''LOGIN_OPTIONAL''), (LStr ''required'', ''LOGIN_REQUIRED''),
           (LStr ''admin'', ''LOGIN_ADMIN'')]"] by auto
  have a: "auth_fail_action h = PNone \<or> (\<exists>c. getitem [(LStr ''redirect'', ''AUTH_FAIL_ACTION_REDIRECT''),
           (LStr ''unauthorized'', ''AUTH_FAIL_ACTION_UNAUTHORIZED'')] (auth_fail_action h) = Inr c)"
    using validated(2)[OF assms] py_in_getitem[of "auth_fail_action h" "[(LStr ''redirect'', ''AUTH_FAIL_ACTION_REDIRECT''),
           (LStr ''unauthorized'', ''AUTH_FAIL_ACTION_UNAUTHORIZED'')]"] by auto
  have r: "redirect_http_response_code h = PNone \<or> (\<exists>c. getitem [(LInt 301, ''REDIRECT_HTTP_RESPONSE_CODE_301''),
           (LInt 302, ''REDIRECT_HTTP_RESPONSE_CODE_302''),
           (LInt 303, ''REDIRECT_HTTP_RESPONSE_CODE_303''),
           (LInt 307, ''REDIRECT_HTTP_RESPONSE_CODE_307'')] (redirect_http_response_code h) = Inr c)"
    using validated(7)[OF assms] py_in_getitem[of "redirect_http_response_code h" "[(LInt 301, ''REDIRECT_HTTP_RESPONSE_CODE_301''),
           (LInt 302, ''REDIRECT_HTTP_RESPONSE_CODE_302''),
           (LInt 303, ''REDIRECT_HTTP_RESPONSE_CODE_303''),
           (LInt 307, ''REDIRECT_HTTP_RESPONSE_CODE_307'')]"] by auto
  show "list_all (\<lambda>p. \<exists>v. getattr h (fst p) = Inr v \<and>
        (v = PNone \<or> (\<exists>table c. map_of API_VALUES (snd p) = Some table \<and> getitem table v = Inr c)))
      API_FIELDS"
    using s l a r by (simp add: API_FIELDS_def getattr_Inr_cases API_VALUES_tables)
qed

lemma static_fields_loop_STATIC:
  "\<exists>sec'. static_fields_loop h STATIC_API_FIELDS sec = Inr sec'"
  by (rule static_fields_loop_total) (simp add: STATIC_API_FIELDS_def getattr_Inr_cases)

lemma to_api_dict_validated:
  assumes "from_yaml d = Inr h"
  obtains out1 sec where
    "api_fields_loop h API_FIELDS [(Str ''urlRegex'', url h)] = Inr out1"
    "static_fields_loop h STATIC_API_FIELDS
       (if truthy (static_dir h)
        then [(Str ''path'', static_dir h),
              (Str ''uploadPathRegex'', PStr (format_upload f (static_dir h)))]
        else [(Str ''path'', static_files h)]) = Inr sec"
    "to_api_dict f h =
       Inr (if static_defined h then setitem out1 (Str ''staticFiles'') (PDict sec)
            else setitem out1 (Str ''script'') (PDict [(Str ''scriptPath'', script h)]))"
proof -
  from api_fields_loop_validated[OF assms] obtain out1 where
    o: "api_fields_loop h API_FIELDS [(Str ''urlRegex'', url h)] = Inr out1" by blast
  from static_fields_loop_STATIC obtain sec where
    s: "static_fields_loop h STATIC_API_FIELDS
       (if truthy (static_dir h)
        then [(Str ''path'', static_dir h),
              (Str ''uploadPathRegex'', PStr (format_upload f (static_dir h)))]
        else [(Str ''path'', static_files h)]) = Inr sec" by blast
  have "to_api_dict f h =
       Inr (if static_defined h then setitem out1 (Str ''staticFiles'') (PDict sec)
            else setitem out1 (Str ''script'') (PDict [(Str ''scriptPath'', script h)]))"
    unfolding to_api_dict_def o using s by simp
  with o s show thesis by (rule that)
qed


lemma API_FIELDS_distinct: "distinct (map snd API_FIELDS)"
  by (simp add: API_FIELDS_def)

lemma STATIC_API_FIELDS_distinct: "distinct (map snd STATIC_API_FIELDS)"
  by (simp add: STATIC_API_FIELDS_def)

lemma py_in_str_cases:
  "py_in v (LStr a # ls) \<longleftrightarrow> v = Str a \<or> py_in v ls"
  by (cases v) (auto simp: py_in_def)

lemma py_in_int_cases:
  "py_in v (LInt a # ls) \<longleftrightarrow> py_eq v (LInt a) \<or> py_in v ls"
  by (auto simp: py_in_def)

lemma py_in_Nil: "py_in v [] = False"
  by (simp add: py_in_def)

lemma py_eq_int_unique: "py_eq v (LInt a) \<Longrightarrow> py_eq v (LInt b) \<Longrightarrow> a = b"
  by (cases v) (auto split: if_splits)

lemma py_eq_hashable: "py_eq v l \<Longrightarrow> hashable v"
  by (cases v; cases l) auto

lemma getitem_str:
  "getitem ((LStr a, c) # table) (PStr s) = (if s = ustr a then Inr c else getitem table (PStr s))"
  by (simp add: getitem_def)

lemma getitem_int_hit: "py_eq v (LInt a) \<Longrightarrow> getitem ((LInt a, c) # table) v = Inr c"
  by (simp add: getitem_def py_eq_hashable)

lemma getitem_int_miss:
  "py_eq v (LInt b) \<Longrightarrow> a \<noteq> b \<Longrightarrow> getitem ((LInt a, c) # table) v = getitem table v"
  using py_eq_int_unique[of v a b] by (auto simp: getitem_def)

text \<open>The four directly mapped keys of the output, for a validated handler.\<close>

lemma api_fields_loop_keys:
  assumes y: "from_yaml d = Inr h"
    and l: "api_fields_loop h API_FIELDS out = Inr out'"
    and m: "(attr, api) \<in> set API_FIELDS"
    and g: "getattr h attr = Inr v"
    and t: "map_of API_VALUES api = Some table"
  shows "v = PNone \<and> map_of out' (Str api) = map_of out (Str api) \<or>
         v \<noteq> PNone \<and> (\<exists>c. getitem table v = Inr c \<and> map_of out' (Str api) = Some (Str c))"
  using api_fields_loop_key[OF l API_FIELDS_distinct m g] t by auto

lemma out_secure:
  assumes y: "from_yaml d = Inr h"
    and l: "api_fields_loop h API_FIELDS [(Str ''urlRegex'', u)] = Inr out"
  shows "secure h = PNone \<and> map_of out (Str ''securityLevel'') = None \<or>
     secure h = Str ''optional'' \<and>
       map_of out (Str ''securityLevel'') = Some (Str ''SECURE_OPTIONAL'') \<or>
     secure h = Str ''never'' \<and>
       map_of out (Str ''securityLevel'') = Some (Str ''SECURE_NEVER'') \<or>
     secure h = Str ''always'' \<and>
       map_of out (Str ''securityLevel'') = Some (Str ''SECURE_ALWAYS'')"
proof -
  have m: "(''secure'', ''securityLevel'') \<in> set API_FIELDS" by (simp add: API_FIELDS_def)
  note k = api_fields_loop_keys[OF y l m getattr_Inr_cases(1) API_VALUES_tables(1)]
  from validated(9)[OF y]
  have "secure h = PNone \<or> secure h = Str ''optional'' \<or> secure h = Str ''never'' \<or>
        secure h = Str ''always''"
    by (simp add: py_in_str_cases py_in_Nil)
  with k show ?thesis by (auto simp: getitem_str)
qed

lemma out_login:
  assumes y: "from_yaml d = Inr h"
    and l: "api_fields_loop h API_FIELDS [(Str ''urlRegex'', u)] = Inr out"
  shows "login h = PNone \<and> map_of out (Str ''login'') = None \<or>
     login h = Str ''optional'' \<and> map_of out (Str ''login'') = Some (Str ''LOGIN_OPTIONAL'') \<or>
     login h = Str ''required'' \<and> map_of out (Str ''login'') = Some (Str ''LOGIN_REQUIRED'') \<or>
     login h = Str ''admin'' \<and> map_of out (Str ''login'') = Some (Str ''LOGIN_ADMIN'')"
proof -
  have m: "(''login'', ''login'') \<in> set API_FIELDS" by (simp add: API_FIELDS_def)
  note k = api_fields_loop_keys[OF y l m getattr_Inr_cases(2) API_VALUES_tables(2)]
  from validated(5)[OF y]
  have "login h = PNone \<or> login h = Str ''optional'' \<or> login h = Str ''required'' \<or>
        login h = Str ''admin''"
    by (simp add: py_in_str_cases py_in_Nil)
  with k show ?thesis by (auto simp: getitem_str)
qed

lemma out_auth_fail_action:
  assumes y: "from_yaml d = Inr h"
    and l: "api_fields_loop h API_FIELDS [(Str ''urlRegex'', u)] = Inr out"
  shows "auth_fail_action h = PNone \<and> map_of out (Str ''authFailAction'') = None \<or>
     auth_fail_action h = Str ''redirect'' \<and>
       map_of out (Str ''authFailAction'') = Some (Str ''AUTH_FAIL_ACTION_REDIRECT'') \<or>
     auth_fail_action h = Str ''unauthorized'' \<and>
       map_of out (Str ''authFailAction'') = Some (Str ''AUTH_FAIL_ACTION_UNAUTHORIZED'')"
proof -
  have m: "(''auth_fail_action'', ''authFailAction'') \<in> set API_FIELDS"
    by (simp add: API_FIELDS_def)
  note k = api_fields_loop_keys[OF y l m getattr_Inr_cases(3) API_VALUES_tables(3)]
  from validated(2)[OF y]
  have "auth_fail_action h = PNone \<or> auth_fail_action h = Str ''redirect'' \<or>
        auth_fail_action h = Str ''unauthorized''"
    by (simp add: py_in_str_cases py_in_Nil)
  with k show ?thesis by (auto simp: getitem_str)
qed

lemma out_redirect:
  assumes y: "from_yaml d = Inr h"
    and l: "api_fields_loop h API_FIELDS [(Str ''urlRegex'', u)] = Inr out"
  shows "redirect_http_response_code h = PNone \<and>
       map_of out (Str ''redirectHttpResponseCode'') = None \<or>
     py_eq (redirect_http_response_code h) (LInt 301) \<and>
       map_of out (Str ''redirectHttpResponseCode'') =
         Some (Str ''REDIRECT_HTTP_RESPONSE_CODE_301'') \<or>
     py_eq (redirect_http_response_code h) (LInt 302) \<and>
       map_of out (Str ''redirectHttpResponseCode'') =
         Some (Str ''REDIRECT_HTTP_RESPONSE_CODE_302'') \<or>
     py_eq (redirect_http_response_code h) (LInt 303) \<and>
       map_of out (Str ''redirectHttpResponseCode'') =
         Some (Str ''REDIRECT_HTTP_RESPONSE_CODE_303'') \<or>
     py_eq (redirect_http_response_code h) (LInt 307) \<and>
       map_of out (Str ''redirectHttpResponseCode'') =
         Some (Str ''REDIRECT_HTTP_RESPONSE_CODE_307'')"
proof -
  have m: "(''redirect_http_response_code'', ''redirectHttpResponseCode'') \<in> set API_FIELDS"
    by (simp add: API_FIELDS_def)
  note k = api_fields_loop_keys[OF y l m getattr_Inr_cases(4) API_VALUES_tables(4)]
  from validated(7)[OF y]
  consider "redirect_http_response_code h = PNone"
    | "py_eq (redirect_http_response_code h) (LInt 301)"
    | "py_eq (redirect_http_response_code h) (LInt 302)"
    | "py_eq (redirect_http_response_code h) (LInt 303)"
    | "py_eq (redirect_http_response_code h) (LInt 307)"
    by (auto simp: py_in_int_cases py_in_Nil)
  then show ?thesis
  proof cases
    case 1
    with k show ?thesis by simp
  next
    case 2
    then have "redirect_http_response_code h \<noteq> PNone" by auto
    with k 2 show ?thesis by (simp add: getitem_int_hit)
  next
    case 3
    then have "redirect_http_response_code h \<noteq> PNone" by auto
    with k 3 show ?thesis by (simp add: getitem_int_hit getitem_int_miss[OF 3])
  next
    case 4
    then have "redirect_http_response_code h \<noteq> PNone" by auto
    with k 4 show ?thesis by (simp add: getitem_int_hit getitem_int_miss[OF 4])
  next
    case 5
    then have "redirect_http_response_code h \<noteq> PNone" by auto
    with k 5 show ?thesis by (simp add: getitem_int_hit getitem_int_miss[OF 5])
  qed
qed



section \<open>The static section and the url\<close>

lemma static_section_keys:
  assumes l: "static_fields_loop h STATIC_API_FIELDS sec0 = Inr sec"
  shows "map_of sec (Str ''uploadPathRegex'') =
           (if upload h = PNone then map_of sec0 (Str ''uploadPathRegex'') else Some (upload h))"
    and "map_of sec (Str ''httpHeaders'') =
           (if http_headers h = PNone then map_of sec0 (Str ''httpHeaders'') else Some (http_headers h))"
    and "map_of sec (Str ''mimeType'') =
           (if mime_type h = PNone then map_of sec0 (Str ''mimeType'') else Some (mime_type h))"
    and "map_of sec (Str ''expiration'') =
           (if expiration h = PNone then map_of sec0 (Str ''expiration'') else Some (expiration h))"
    and "map_of sec (Str ''applicationReadable'') =
           (if application_readable h = PNone then map_of sec0 (Str ''applicationReadable'')
            else Some (application_readable h))"
    and "map_of sec (Str ''path'') = map_of sec0 (Str ''path'')"
proof -
  note k = static_fields_loop_key[OF l STATIC_API_FIELDS_distinct]
  show "map_of sec (Str ''uploadPathRegex'') =
           (if upload h = PNone then map_of sec0 (Str ''uploadPathRegex'') else Some (upload h))"
    by (rule k[OF _ getattr_Inr_cases(5)]) (simp add: STATIC_API_FIELDS_def)
  show "map_of sec (Str ''httpHeaders'') =
           (if http_headers h = PNone then map_of sec0 (Str ''httpHeaders'') else Some (http_headers h))"
    by (rule k[OF _ getattr_Inr_cases(6)]) (simp add: STATIC_API_FIELDS_def)
  show "map_of sec (Str ''mimeType'') =
           (if mime_type h = PNone then map_of sec0 (Str ''mimeType'') else Some (mime_type h))"
    by (rule k[OF _ getattr_Inr_cases(7)]) (simp add: STATIC_API_FIELDS_def)
  show "map_of sec (Str ''expiration'') =
           (if expiration h = PNone then map_of sec0 (Str ''expiration'') else Some (expiration h))"
    by (rule k[OF _ getattr_Inr_cases(8)]) (simp add: STATIC_API_FIELDS_def)
  show "map_of sec (Str ''applicationReadable'') =
           (if application_readable h = PNone then map_of sec0 (Str ''applicationReadable'')
            else Some (application_readable h))"
    by (rule k[OF _ getattr_Inr_cases(9)]) (simp add: STATIC_API_FIELDS_def)
  show "map_of sec (Str ''path'') = map_of sec0 (Str ''path'')"
    by (rule static_fields_loop_other[OF l]) (simp add: STATIC_API_FIELDS_def)
qed

lemma to_api_dict_static:
  assumes y: "from_yaml d = Inr h" and s: "static_defined h"
  obtains out sec where
    "to_api_dict f h = Inr out"
    "map_of out (Str ''staticFiles'') = Some (PDict sec)"
    "static_fields_loop h STATIC_API_FIELDS
       (if truthy (static_dir h)
        then [(Str ''path'', static_dir h),
              (Str ''uploadPathRegex'', PStr (format_upload f (static_dir h)))]
        else [(Str ''path'', static_files h)]) = Inr sec"
proof -
  from y obtain out1 sec where
    l: "static_fields_loop h STATIC_API_FIELDS
       (if truthy (static_dir h)
        then [(Str ''path'', static_dir h),
              (Str ''uploadPathRegex'', PStr (format_upload f (static_dir h)))]
        else [(Str ''path'', static_files h)]) = Inr sec"
    and t: "to_api_dict f h =
       Inr (if static_defined h then setitem out1 (Str ''staticFiles'') (PDict sec)
            else setitem out1 (Str ''script'') (PDict [(Str ''scriptPath'', script h)]))"
    by (rule to_api_dict_validated)
  from t s have "to_api_dict f h = Inr (setitem out1 (Str ''staticFiles'') (PDict sec))" by simp
  moreover have "map_of (setitem out1 (Str ''staticFiles'') (PDict sec)) (Str ''staticFiles'') =
      Some (PDict sec)" by (simp add: map_of_setitem)
  ultimately show thesis using l by (rule that)
qed

lemma to_api_dict_static_dir:
  assumes y: "from_yaml d = Inr h" and s: "static_dir h = PStr p" and n: "p \<noteq> []"
  shows "\<exists>out sec. to_api_dict f h = Inr out \<and>
      map_of out (Str ''staticFiles'') = Some (PDict sec) \<and>
      map_of sec (Str ''path'') = Some (PStr p) \<and>
      map_of sec (Str ''uploadPathRegex'') =
        Some (if upload h = PNone then PStr (p @ ustr ''/.*'') else upload h)"
proof -
  from s have sd: "static_defined h" by (simp add: static_defined_def)
  from y sd obtain out sec where
    t: "to_api_dict f h = Inr out" "map_of out (Str ''staticFiles'') = Some (PDict sec)"
    and l: "static_fields_loop h STATIC_API_FIELDS
       (if truthy (static_dir h)
        then [(Str ''path'', static_dir h),
              (Str ''uploadPathRegex'', PStr (format_upload f (static_dir h)))]
        else [(Str ''path'', static_files h)]) = Inr sec"
    by (rule to_api_dict_static)
  note k = static_section_keys[OF l]
  have "map_of sec (Str ''path'') = Some (PStr p)"
    and "map_of sec (Str ''uploadPathRegex'') =
        Some (if upload h = PNone then PStr (p @ ustr ''/.*'') else upload h)"
    using s n by (simp_all add: k(1,6) format_upload_def)
  with t show ?thesis by blast
qed

lemma dict_get_setitem:
  "dict_get (setitem d k v) k' = (if k' = k then v else dict_get d k')"
  by (simp add: dict_get_def map_of_setitem)

lemma map_fst_setitem:
  "map fst (setitem d k v) = (if k \<in> fst ` set d then map fst d else map fst d @ [k])"
  by (induction d) (force simp: image_iff)+

lemma keys_setitem: "fst ` set (setitem d k v) = insert k (fst ` set d)"
proof -
  have "set (map fst (setitem d k v)) = insert k (set (map fst d))"
    unfolding map_fst_setitem by auto
  then show ?thesis by simp
qed

lemma to_api_dict_urlRegex:
  assumes y: "from_yaml d = Inr h"
  shows "\<exists>out. to_api_dict f h = Inr out \<and> map_of out (Str ''urlRegex'') = Some (url h)"
proof -
  from y obtain out1 sec where
    l: "api_fields_loop h API_FIELDS [(Str ''urlRegex'', url h)] = Inr out1"
    and t: "to_api_dict f h =
       Inr (if static_defined h then setitem out1 (Str ''staticFiles'') (PDict sec)
            else setitem out1 (Str ''script'') (PDict [(Str ''scriptPath'', script h)]))"
    by (rule to_api_dict_validated)
  have "map_of out1 (Str ''urlRegex'') = map_of [(Str ''urlRegex'', url h)] (Str ''urlRegex'')"
    by (rule api_fields_loop_other[OF l]) (simp add: API_FIELDS_def)
  then have "map_of (if static_defined h then setitem out1 (Str ''staticFiles'') (PDict sec)
            else setitem out1 (Str ''script'') (PDict [(Str ''scriptPath'', script h)]))
        (Str ''urlRegex'') = Some (url h)"
    by (simp add: map_of_setitem)
  with t show ?thesis by blast
qed

lemma from_yaml_null_url:
  assumes n: "map_of d (Str ''url'') = Some PNone"
    and y: "from_yaml (setitem d (Str ''url'') (PStr s)) = Inr h"
  shows "from_yaml d = Inr (h\<lparr>url := PNone\<rparr>)"
proof -
  let ?d = "setitem d (Str ''url'') (PStr s)"
  from n have g: "dict_get d (Str ''url'') = PNone" by (simp add: dict_get_def)
  from y have r: "list_all recognized (map fst ?d)" and p: "list_all (passes ?d) FIELD_RULES"
    and c: "(script (attrs_of ?d) \<noteq> PNone) \<noteq> static_defined (attrs_of ?d)"
      "\<not> (static_dir (attrs_of ?d) \<noteq> PNone \<and> static_files (attrs_of ?d) \<noteq> PNone)"
    and h: "h = attrs_of ?d"
    by (simp_all add: from_yaml_Inr_iff)
  have a: "attrs_of d = (attrs_of ?d)\<lparr>url := PNone\<rparr>"
    by (simp add: attrs_of_def dict_get_setitem g)
  from r have r': "list_all recognized (map fst d)"
    by (simp add: list_all_iff keys_setitem)
  have p': "list_all (passes d) FIELD_RULES"
    unfolding list_all_iff
  proof
    fix fr assume m: "fr \<in> set FIELD_RULES"
    show "passes d fr"
    proof (cases "fst fr = ''url''")
      case True
      with g show ?thesis by (simp add: passes_def)
    next
      case False
      from p m have "passes ?d fr" by (simp add: list_all_iff)
      with False show ?thesis by (simp add: passes_def dict_get_setitem)
    qed
  qed
  from c have c': "(script (attrs_of d) \<noteq> PNone) \<noteq> static_defined (attrs_of d)"
      "\<not> (static_dir (attrs_of d) \<noteq> PNone \<and> static_files (attrs_of d) \<noteq> PNone)"
    by (simp_all add: a static_defined_def)
  from n r' p' c' show ?thesis
    unfolding from_yaml_Inr_iff h a by simp
qed

section \<open>The pattern and the grammar\<close>

lemma is_space_iff [simp]: "is_space c \<longleftrightarrow> is_whitespace c"
  by (simp add: is_space_def whitespace_def is_whitespace_def) arith






















lemma words_from_snoc_space:
  "is_whitespace c \<Longrightarrow> words_from cur (s @ [c]) = words_from cur s"
  by (induction s arbitrary: cur) simp_all












section \<open>Errors of \<open>from_yaml\<close>\<close>

lemma FIELD_RULES_Inl:
  "(field, rule) \<in> set FIELD_RULES \<Longrightarrow> rule v = Inl e \<Longrightarrow>
     field = ''expiration'' \<and> \<not> isinstance_str v \<and> e = TypeError"
  by (auto simp: FIELD_RULES_def anchored_match_def split: pyval.splits)

lemma from_yaml_no_type_error:
  assumes x: "dict_get d (Str ''expiration'') = PNone \<or>
      isinstance_str (dict_get d (Str ''expiration''))"
    and f: "from_yaml d = Inl e"
  shows "\<exists>c. e = AppEngineConfigException c"
proof (cases "map_of d (Str ''url'')")
  case None
  with f show ?thesis by (auto simp: from_yaml_def)
next
  case (Some u)
  show ?thesis
  proof (cases "find (\<lambda>field. \<not> recognized field) (map fst d)")
    case (Some k)
    with f \<open>map_of d (Str ''url'') = Some u\<close> show ?thesis by (auto simp: from_yaml_def)
  next
    case None
    show ?thesis
    proof (cases "check_fields d FIELD_RULES (Handler u)")
      case (Inr h)
      with f None \<open>map_of d (Str ''url'') = Some u\<close> show ?thesis
        by (auto simp: from_yaml_def split: if_splits)
    next
      case (Inl e')
      with f None \<open>map_of d (Str ''url'') = Some u\<close> have "e' = e" by (simp add: from_yaml_def)
      with Inl check_fields_Inl[of d FIELD_RULES "Handler u" e] obtain field rule where
        m: "(field, rule) \<in> set FIELD_RULES" and n: "dict_get d (Str field) \<noteq> PNone"
        and c: "rule (dict_get d (Str field)) = Inl e \<or>
          rule (dict_get d (Str field)) = Inr False \<and>
          e = AppEngineConfigException (InvalidValue field (dict_get d (Str field)))"
        by blast
      from c show ?thesis
      proof
        assume "rule (dict_get d (Str field)) = Inl e"
        from FIELD_RULES_Inl[OF m this] x n show ?thesis by auto
      next
        assume "rule (dict_get d (Str field)) = Inr False \<and>
          e = AppEngineConfigException (InvalidValue field (dict_get d (Str field)))"
        then show ?thesis by blast
      qed
    qed
  qed
qed


text \<open>
  The three checks across fields, for a dictionary whose expiration cannot make the field
  rules raise a TypeError.
\<close>

lemma from_yaml_cross_field:
  assumes x: "dict_get d (Str ''expiration'') = PNone \<or>
      isinstance_str (dict_get d (Str ''expiration''))"
    and c: "dict_get d (Str ''script'') \<noteq> PNone \<and>
        (dict_get d (Str ''static_dir'') \<noteq> PNone \<or> dict_get d (Str ''static_files'') \<noteq> PNone) \<or>
      dict_get d (Str ''script'') = PNone \<and> dict_get d (Str ''static_dir'') = PNone \<and>
        dict_get d (Str ''static_files'') = PNone \<or>
      dict_get d (Str ''static_dir'') \<noteq> PNone \<and> dict_get d (Str ''static_files'') \<noteq> PNone"
  shows "\<exists>c. from_yaml d = Inl (AppEngineConfigException c)"
proof (cases "from_yaml d")
  case (Inl e)
  with from_yaml_no_type_error[OF x Inl] show ?thesis by blast
next
  case (Inr h)
  then have "(script (attrs_of d) \<noteq> PNone) \<noteq> static_defined (attrs_of d)"
    and "\<not> (static_dir (attrs_of d) \<noteq> PNone \<and> static_files (attrs_of d) \<noteq> PNone)"
    by (simp_all add: from_yaml_Inr_iff)
  with c show ?thesis by (auto simp: attrs_of_sel static_defined_def)
qed



section \<open>The claims\<close>

text \<open>
  C1, at a dictionary that sets script and static_dir and gives expiration as the
  integer 45: \<open>from_yaml\<close> raises TypeError, not AppEngineConfigException. The rule of
  expiration is the \<open>match\<close> method of the compiled pattern, which raises on anything
  but a string, and the field rules run before the check of script against the static
  elements. (When expiration is absent, None or a string, each of the three conflicts
  gives AppEngineConfigException: \<open>from_yaml_cross_field\<close>. Every handler that is
  returned has exactly one of script and a static element, and not both static_dir and
  static_files: the last two facts of \<open>validated\<close>.)
\<close>

theorem from_yaml_script_static_type_error:
  "from_yaml [(Str ''url'', Str ''/''), (Str ''script'', Str ''a.py''),
              (Str ''static_dir'', Str ''s''), (Str ''expiration'', PInt 45)] = Inl TypeError"
  by (simp add: from_yaml_def FIELD_RULES_def Handler_def dict_get_def setattr_def
      anchored_match_def)

text \<open>
  C2, at the empty string. The dictionary with url \<open>/\<close> and static_dir the empty
  string is accepted by \<open>from_yaml\<close>, and \<open>to_api_dict\<close> then makes a static
  section whose path is None and which has no uploadPathRegex: the method tests the
  truth value of static_dir, and the empty string is false. (For a static_dir that is
  not empty, \<open>to_api_dict_static_dir\<close> above gives the path and the concatenated
  upload pattern.)
\<close>

theorem to_api_dict_empty_static_dir:
  "from_yaml [(Str ''url'', Str ''/''), (Str ''static_dir'', Str '''')] =
     Inr ((Handler (Str ''/''))\<lparr>static_dir := Str ''''\<rparr>) \<and>
   to_api_dict str_of ((Handler (Str ''/''))\<lparr>static_dir := Str ''''\<rparr>) =
     Inr [(Str ''urlRegex'', Str ''/''), (Str ''staticFiles'', PDict [(Str ''path'', PNone)])]"
  by (simp add: from_yaml_def FIELD_RULES_def Handler_def dict_get_def setattr_def
      static_defined_def to_api_dict_def API_FIELDS_def STATIC_API_FIELDS_def getattr_def)

text \<open>
  C3. A handler that \<open>from_yaml\<close> returned is serialised without error, and for each of
  the four directly mapped attributes (secure, login, auth_fail_action,
  redirect_http_response_code) one of the following holds: the attribute is None and the
  output has no entry under its key (securityLevel, login, authFailAction,
  redirectHttpResponseCode); or the attribute is one of the values of the translation
  table and the output holds the constant of that value under the key. No other case
  exists. An integer code is recognised by Python equality, so an equal float selects the
  same constant.
\<close>

theorem to_api_dict_enum_fields:
  assumes "from_yaml yaml_entry = Inr self"
  shows "\<exists>out. to_api_dict str_of self = Inr out \<and>
    (secure self = PNone \<and> map_of out (Str ''securityLevel'') = None \<or>
     secure self = Str ''optional'' \<and>
       map_of out (Str ''securityLevel'') = Some (Str ''SECURE_OPTIONAL'') \<or>
     secure self = Str ''never'' \<and>
       map_of out (Str ''securityLevel'') = Some (Str ''SECURE_NEVER'') \<or>
     secure self = Str ''always'' \<and>
       map_of out (Str ''securityLevel'') = Some (Str ''SECURE_ALWAYS'')) \<and>
    (login self = PNone \<and> map_of out (Str ''login'') = None \<or>
     login self = Str ''optional'' \<and>
       map_of out (Str ''login'') = Some (Str ''LOGIN_OPTIONAL'') \<or>
     login self = Str ''required'' \<and>
       map_of out (Str ''login'') = Some (Str ''LOGIN_REQUIRED'') \<or>
     login self = Str ''admin'' \<and>
       map_of out (Str ''login'') = Some (Str ''LOGIN_ADMIN'')) \<and>
    (auth_fail_action self = PNone \<and> map_of out (Str ''authFailAction'') = None \<or>
     auth_fail_action self = Str ''redirect'' \<and>
       map_of out (Str ''authFailAction'') = Some (Str ''AUTH_FAIL_ACTION_REDIRECT'') \<or>
     auth_fail_action self = Str ''unauthorized'' \<and>
       map_of out (Str ''authFailAction'') = Some (Str ''AUTH_FAIL_ACTION_UNAUTHORIZED'')) \<and>
    (redirect_http_response_code self = PNone \<and>
       map_of out (Str ''redirectHttpResponseCode'') = None \<or>
     py_eq (redirect_http_response_code self) (LInt 301) \<and>
       map_of out (Str ''redirectHttpResponseCode'') =
         Some (Str ''REDIRECT_HTTP_RESPONSE_CODE_301'') \<or>
     py_eq (redirect_http_response_code self) (LInt 302) \<and>
       map_of out (Str ''redirectHttpResponseCode'') =
         Some (Str ''REDIRECT_HTTP_RESPONSE_CODE_302'') \<or>
     py_eq (redirect_http_response_code self) (LInt 303) \<and>
       map_of out (Str ''redirectHttpResponseCode'') =
         Some (Str ''REDIRECT_HTTP_RESPONSE_CODE_303'') \<or>
     py_eq (redirect_http_response_code self) (LInt 307) \<and>
       map_of out (Str ''redirectHttpResponseCode'') =
         Some (Str ''REDIRECT_HTTP_RESPONSE_CODE_307''))"
proof -
  from assms obtain out1 sec where
    l: "api_fields_loop self API_FIELDS [(Str ''urlRegex'', url self)] = Inr out1"
    and t: "to_api_dict str_of self =
       Inr (if static_defined self then setitem out1 (Str ''staticFiles'') (PDict sec)
            else setitem out1 (Str ''script'') (PDict [(Str ''scriptPath'', script self)]))"
    by (rule to_api_dict_validated)
  define out where "out = (if static_defined self then setitem out1 (Str ''staticFiles'') (PDict sec)
            else setitem out1 (Str ''script'') (PDict [(Str ''scriptPath'', script self)]))"
  have k: "map_of out (Str ''securityLevel'') = map_of out1 (Str ''securityLevel'')"
    "map_of out (Str ''login'') = map_of out1 (Str ''login'')"
    "map_of out (Str ''authFailAction'') = map_of out1 (Str ''authFailAction'')"
    "map_of out (Str ''redirectHttpResponseCode'') = map_of out1 (Str ''redirectHttpResponseCode'')"
    by (simp_all add: out_def map_of_setitem)
  have "to_api_dict str_of self = Inr out" using t by (simp add: out_def)
  moreover note out_secure[OF assms l, folded k] out_login[OF assms l, folded k]
    out_auth_fail_action[OF assms l, folded k] out_redirect[OF assms l, folded k]
  ultimately show ?thesis by blast
qed

theorem to_api_dict_enum_fields_witness:
  "from_yaml [(Str ''url'', Str ''/''), (Str ''static_dir'', Str ''static''),
              (Str ''secure'', Str ''always''), (Str ''redirect_http_response_code'', PInt 302)] =
     Inr ((Handler (Str ''/''))\<lparr>static_dir := Str ''static'', secure := Str ''always'',
            redirect_http_response_code := PInt 302\<rparr>) \<and>
   (\<exists>out. to_api_dict (\<lambda>obj. []) ((Handler (Str ''/''))\<lparr>static_dir := Str ''static'',
              secure := Str ''always'', redirect_http_response_code := PInt 302\<rparr>) = Inr out \<and>
      map_of out (Str ''securityLevel'') = Some (Str ''SECURE_ALWAYS'') \<and>
      map_of out (Str ''login'') = None \<and>
      map_of out (Str ''authFailAction'') = None \<and>
      map_of out (Str ''redirectHttpResponseCode'') =
        Some (Str ''REDIRECT_HTTP_RESPONSE_CODE_302''))"
proof -
  have y: "from_yaml [(Str ''url'', Str ''/''), (Str ''static_dir'', Str ''static''),
              (Str ''secure'', Str ''always''), (Str ''redirect_http_response_code'', PInt 302)] =
     Inr ((Handler (Str ''/''))\<lparr>static_dir := Str ''static'', secure := Str ''always'',
            redirect_http_response_code := PInt 302\<rparr>)"
    by (simp add: from_yaml_def FIELD_RULES_def Handler_def dict_get_def setattr_def
        static_defined_def py_in_def)
  from to_api_dict_enum_fields[OF y, of "\<lambda>obj. []"] y show ?thesis
    by (auto simp: Handler_def)
qed










text \<open>
  C8. Let \<open>from_yaml\<close> have returned a handler with a static element. Then
  \<open>to_api_dict\<close> returns a dictionary whose staticFiles entry is a section in which
  each of upload, http_headers, mime_type, expiration and application_readable that is
  not None stands under its key (uploadPathRegex, httpHeaders, mimeType, expiration,
  applicationReadable). In particular, with static_dir and upload both set, the
  uploadPathRegex of the section is the value of upload: the secondary fields are assigned
  after the section is built, so upload overwrites the entry made from static_dir.
\<close>

theorem to_api_dict_static_fields:
  assumes "from_yaml yaml_entry = Inr self" and "static_defined self"
  shows "\<exists>out static_section. to_api_dict str_of self = Inr out \<and>
      map_of out (Str ''staticFiles'') = Some (PDict static_section) \<and>
      (static_dir self \<noteq> PNone \<and> upload self \<noteq> PNone \<longrightarrow>
         map_of static_section (Str ''uploadPathRegex'') = Some (upload self)) \<and>
      (upload self \<noteq> PNone \<longrightarrow>
         map_of static_section (Str ''uploadPathRegex'') = Some (upload self)) \<and>
      (http_headers self \<noteq> PNone \<longrightarrow>
         map_of static_section (Str ''httpHeaders'') = Some (http_headers self)) \<and>
      (mime_type self \<noteq> PNone \<longrightarrow>
         map_of static_section (Str ''mimeType'') = Some (mime_type self)) \<and>
      (expiration self \<noteq> PNone \<longrightarrow>
         map_of static_section (Str ''expiration'') = Some (expiration self)) \<and>
      (application_readable self \<noteq> PNone \<longrightarrow>
         map_of static_section (Str ''applicationReadable'') = Some (application_readable self))"
proof -
  from assms obtain out sec where
    t: "to_api_dict str_of self = Inr out" "map_of out (Str ''staticFiles'') = Some (PDict sec)"
    and l: "static_fields_loop self STATIC_API_FIELDS
       (if truthy (static_dir self)
        then [(Str ''path'', static_dir self),
              (Str ''uploadPathRegex'', PStr (format_upload str_of (static_dir self)))]
        else [(Str ''path'', static_files self)]) = Inr sec"
    by (rule to_api_dict_static)
  note k = static_section_keys[OF l]
  have "(static_dir self \<noteq> PNone \<and> upload self \<noteq> PNone \<longrightarrow>
         map_of sec (Str ''uploadPathRegex'') = Some (upload self)) \<and>
      (upload self \<noteq> PNone \<longrightarrow>
         map_of sec (Str ''uploadPathRegex'') = Some (upload self)) \<and>
      (http_headers self \<noteq> PNone \<longrightarrow>
         map_of sec (Str ''httpHeaders'') = Some (http_headers self)) \<and>
      (mime_type self \<noteq> PNone \<longrightarrow>
         map_of sec (Str ''mimeType'') = Some (mime_type self)) \<and>
      (expiration self \<noteq> PNone \<longrightarrow>
         map_of sec (Str ''expiration'') = Some (expiration self)) \<and>
      (application_readable self \<noteq> PNone \<longrightarrow>
         map_of sec (Str ''applicationReadable'') = Some (application_readable self))"
    by (simp add: k(1-5))
  with t show ?thesis by blast
qed

theorem to_api_dict_static_fields_witness:
  "from_yaml [(Str ''url'', Str ''/s''), (Str ''static_dir'', Str ''st''),
              (Str ''upload'', Str ''st/.*[.]png''), (Str ''mime_type'', Str ''image/png'')] =
     Inr ((Handler (Str ''/s''))\<lparr>mime_type := Str ''image/png'', static_dir := Str ''st'',
            upload := Str ''st/.*[.]png''\<rparr>) \<and>
   static_defined ((Handler (Str ''/s''))\<lparr>mime_type := Str ''image/png'',
            static_dir := Str ''st'', upload := Str ''st/.*[.]png''\<rparr>) \<and>
   (\<exists>out static_section.
      to_api_dict (\<lambda>obj. []) ((Handler (Str ''/s''))\<lparr>mime_type := Str ''image/png'',
            static_dir := Str ''st'', upload := Str ''st/.*[.]png''\<rparr>) = Inr out \<and>
      map_of out (Str ''staticFiles'') = Some (PDict static_section) \<and>
      map_of static_section (Str ''uploadPathRegex'') = Some (Str ''st/.*[.]png'') \<and>
      map_of static_section (Str ''mimeType'') = Some (Str ''image/png''))"
proof -
  have y: "from_yaml [(Str ''url'', Str ''/s''), (Str ''static_dir'', Str ''st''),
              (Str ''upload'', Str ''st/.*[.]png''), (Str ''mime_type'', Str ''image/png'')] =
     Inr ((Handler (Str ''/s''))\<lparr>mime_type := Str ''image/png'', static_dir := Str ''st'',
            upload := Str ''st/.*[.]png''\<rparr>)"
    by (simp add: from_yaml_def FIELD_RULES_def Handler_def dict_get_def setattr_def
        static_defined_def)
  have s: "static_defined ((Handler (Str ''/s''))\<lparr>mime_type := Str ''image/png'',
            static_dir := Str ''st'', upload := Str ''st/.*[.]png''\<rparr>)"
    by (simp add: static_defined_def)
  from to_api_dict_static_fields[OF y s, of "\<lambda>obj. []"] y s show ?thesis
    by (auto simp: Handler_def)
qed

text \<open>
  C9. For a handler that \<open>from_yaml\<close> returned, a call of \<open>to_api_dict\<close> returns a
  dictionary (it raises nothing), leaves the handler as it was, and a second call on the
  handler returns an equal dictionary.
\<close>

theorem to_api_dict_total:
  assumes "from_yaml yaml_entry = Inr self"
  shows "\<exists>out. call_to_api_dict str_of self = (Inr out, self) \<and>
           call_to_api_dict str_of (snd (call_to_api_dict str_of self)) = (Inr out, self)"
proof -
  from assms obtain out1 sec where
    "to_api_dict str_of self =
       Inr (if static_defined self then setitem out1 (Str ''staticFiles'') (PDict sec)
            else setitem out1 (Str ''script'') (PDict [(Str ''scriptPath'', script self)]))"
    by (rule to_api_dict_validated)
  then show ?thesis by (simp add: call_to_api_dict_def)
qed

theorem to_api_dict_total_witness:
  "from_yaml [(Str ''url'', Str ''/api''), (Str ''script'', Str ''api.py'')] =
     Inr ((Handler (Str ''/api''))\<lparr>script := Str ''api.py''\<rparr>) \<and>
   call_to_api_dict (\<lambda>obj. []) ((Handler (Str ''/api''))\<lparr>script := Str ''api.py''\<rparr>) =
     (Inr [(Str ''urlRegex'', Str ''/api''),
           (Str ''script'', PDict [(Str ''scriptPath'', Str ''api.py'')])],
      (Handler (Str ''/api''))\<lparr>script := Str ''api.py''\<rparr>)"
proof -
  have y: "from_yaml [(Str ''url'', Str ''/api''), (Str ''script'', Str ''api.py'')] =
     Inr ((Handler (Str ''/api''))\<lparr>script := Str ''api.py''\<rparr>)"
    by (simp add: from_yaml_def FIELD_RULES_def Handler_def dict_get_def setattr_def
        static_defined_def)
  from to_api_dict_total[OF y, of "\<lambda>obj. []"] obtain out where
    "call_to_api_dict (\<lambda>obj. []) ((Handler (Str ''/api''))\<lparr>script := Str ''api.py''\<rparr>) =
       (Inr out, (Handler (Str ''/api''))\<lparr>script := Str ''api.py''\<rparr>)"
    by blast
  moreover have "to_api_dict (\<lambda>obj. []) ((Handler (Str ''/api''))\<lparr>script := Str ''api.py''\<rparr>) =
     Inr [(Str ''urlRegex'', Str ''/api''),
          (Str ''script'', PDict [(Str ''scriptPath'', Str ''api.py'')])]"
    by (simp add: to_api_dict_def API_FIELDS_def getattr_def Handler_def static_defined_def)
  ultimately show ?thesis using y by (simp add: call_to_api_dict_def)
qed

text \<open>
  C10. Let the dictionary hold None under url, and let the same dictionary with a string
  under url be accepted. Then \<open>from_yaml\<close> accepts the dictionary as well; the handler
  is that of the other dictionary but for its url, which is None; and \<open>to_api_dict\<close>
  returns a dictionary with None under urlRegex.
\<close>

theorem from_yaml_url_None:
  assumes "map_of yaml_entry (Str ''url'') = Some PNone"
    and "from_yaml (setitem yaml_entry (Str ''url'') (PStr s)) = Inr h"
  shows "from_yaml yaml_entry = Inr (h\<lparr>url := PNone\<rparr>) \<and>
    (\<exists>out. to_api_dict str_of (h\<lparr>url := PNone\<rparr>) = Inr out \<and>
       map_of out (Str ''urlRegex'') = Some PNone)"
proof -
  from assms have y: "from_yaml yaml_entry = Inr (h\<lparr>url := PNone\<rparr>)"
    by (rule from_yaml_null_url)
  from to_api_dict_urlRegex[OF y, of str_of] y show ?thesis by simp
qed

theorem from_yaml_url_None_witness:
  "map_of [(Str ''url'', PNone), (Str ''script'', Str ''a.py'')] (Str ''url'') = Some PNone \<and>
   from_yaml (setitem [(Str ''url'', PNone), (Str ''script'', Str ''a.py'')] (Str ''url'') (Str ''/'')) =
     Inr ((Handler (Str ''/''))\<lparr>script := Str ''a.py''\<rparr>) \<and>
   from_yaml [(Str ''url'', PNone), (Str ''script'', Str ''a.py'')] =
     Inr ((Handler PNone)\<lparr>script := Str ''a.py''\<rparr>) \<and>
   (\<exists>out. to_api_dict (\<lambda>obj. []) ((Handler PNone)\<lparr>script := Str ''a.py''\<rparr>) = Inr out \<and>
      map_of out (Str ''urlRegex'') = Some PNone)"
proof -
  have n: "map_of [(Str ''url'', PNone), (Str ''script'', Str ''a.py'')] (Str ''url'') = Some PNone"
    by simp
  have y: "from_yaml (setitem [(Str ''url'', PNone), (Str ''script'', Str ''a.py'')] (Str ''url'') (Str ''/'')) =
     Inr ((Handler (Str ''/''))\<lparr>script := Str ''a.py''\<rparr>)"
    by (simp add: from_yaml_def FIELD_RULES_def Handler_def dict_get_def setattr_def
        static_defined_def)
  from from_yaml_url_None[OF n y, of "\<lambda>obj. []"] n y show ?thesis
    by (simp add: Handler_def)
qed

end
